theory Spec2Isabelle
  imports Complex_Main "HOL-Library.Monad_Syntax"
begin

section \<open>JavaScript primitives used by the focus timer\<close>

text \<open>
  Every number the timer handles is an integer (minutes, millisecond timestamps, counters),
  so it is an \<open>int\<close>.  Sums, differences and products of such numbers are exact in
  JavaScript while they stay below \<open>2 ^ 53\<close>, which is the range the arithmetic of the model
  stands for; the one place where longer integers come in, \<open>parseInt\<close>, rounds them as the
  language does.  The only quotient, \<open>elapsed / totalDuration\<close>, is kept as an exact
  rational, with the three non-finite results of a division written out.
\<close>

datatype Number = Fin rat | PosInfinity | NegInfinity | NaN

definition js_div :: "int \<Rightarrow> int \<Rightarrow> Number" where
  \<comment> \<open>\<open>a / b\<close> on integers; the divisor \<open>0\<close> is \<open>+0\<close>.\<close>
  "js_div a b =
     (if b = 0 then (if a = 0 then NaN else if 0 < a then PosInfinity else NegInfinity)
      else Fin (of_int a / of_int b))"

definition Math_min1 :: "Number \<Rightarrow> Number" where
  \<comment> \<open>\<open>Math.min(1, x)\<close>\<close>
  "Math_min1 x =
     (case x of Fin q \<Rightarrow> Fin (min 1 q) | PosInfinity \<Rightarrow> Fin 1
      | NegInfinity \<Rightarrow> NegInfinity | NaN \<Rightarrow> NaN)"

definition js_rem :: "int \<Rightarrow> int \<Rightarrow> int option" where
  \<comment> \<open>\<open>a % b\<close>: the sign follows the dividend; \<open>None\<close> is \<open>NaN\<close> (divisor \<open>0\<close>).\<close>
  "js_rem a b = (if b = 0 then None else Some (sgn a * (\<bar>a\<bar> mod \<bar>b\<bar>)))"

definition truthy :: "'a::zero option \<Rightarrow> bool" where
  \<comment> \<open>\<open>if (v)\<close> for a \<open>number | null\<close>: \<open>null\<close> and \<open>0\<close> are falsy.\<close>
  "truthy v = (case v of None \<Rightarrow> False | Some x \<Rightarrow> x \<noteq> 0)"

definition js_or :: "int option \<Rightarrow> int \<Rightarrow> int" where
  \<comment> \<open>\<open>v || d\<close> where \<open>v\<close> is a number (\<open>None\<close> is \<open>NaN\<close>): \<open>NaN\<close> and \<open>0\<close> are falsy.\<close>
  "js_or v d = (case v of None \<Rightarrow> d | Some x \<Rightarrow> if x = 0 then d else x)"

subsection \<open>\<open>parseInt\<close> without a radix\<close>

text \<open>
  The value of an input element is a string of UTF-16 code units.  \<open>parseInt\<close> skips the
  white space and line terminators of the language (not only the ASCII ones), reads an
  optional sign, an optional \<open>0x\<close> prefix and the longest run of digits of the radix, and
  returns the integer read as a Number, that is, rounded to the nearest double with ties to
  the even significand.
\<close>

type_synonym DOMString = "int list"

definition ascii :: "string \<Rightarrow> DOMString" where
  \<comment> \<open>The code units of a string of ASCII characters.\<close>
  "ascii s = map of_char s"

definition StrWhiteSpaceChar :: "int \<Rightarrow> bool" where
  \<comment> \<open>TAB, LF, VT, FF, CR, SP, NBSP, the other space separators (U+1680, U+2000 to U+200A,
      U+202F, U+205F, U+3000), LS, PS and ZWNBSP.\<close>
  "StrWhiteSpaceChar c =
     (c \<in> set [0x09, 0x0A, 0x0B, 0x0C, 0x0D, 0x20, 0xA0, 0x1680, 0x2028, 0x2029, 0x202F,
               0x205F, 0x3000, 0xFEFF]
      \<or> (0x2000 \<le> c \<and> c \<le> 0x200A))"

definition digitValue :: "int \<Rightarrow> int option" where
  "digitValue n =
     (if 48 \<le> n \<and> n \<le> 57 then Some (n - 48)
      else if 97 \<le> n \<and> n \<le> 122 then Some (n - 87)
      else if 65 \<le> n \<and> n \<le> 90 then Some (n - 55)
      else None)"

definition radixDigit :: "int \<Rightarrow> int \<Rightarrow> bool" where
  "radixDigit R c = (case digitValue c of None \<Rightarrow> False | Some d \<Rightarrow> d < R)"

definition parseDigits :: "DOMString \<Rightarrow> (bool \<times> int) option" where
  \<comment> \<open>The sign (\<open>True\<close> for \<open>-\<close>) and the mathematical integer read; \<open>None\<close> when no digit
      is read.\<close>
  "parseDigits str =
     (let s1 = dropWhile StrWhiteSpaceChar str;
          neg = (case s1 of c # _ \<Rightarrow> c = 0x2D | [] \<Rightarrow> False);
          s2 = (case s1 of c # r \<Rightarrow> if c = 0x2D \<or> c = 0x2B then r else s1 | [] \<Rightarrow> s1);
          hex = (take 2 s2 = [0x30, 0x78] \<or> take 2 s2 = [0x30, 0x58]);
          R = (if hex then 16 else 10);
          s3 = (if hex then drop 2 s2 else s2);
          ds = takeWhile (radixDigit R) s3;
          mag = foldl (\<lambda>a c. case digitValue c of Some d \<Rightarrow> a * R + d | None \<Rightarrow> a) 0 ds
      in if ds = [] then None else Some (neg, mag))"

function bitLength :: "int \<Rightarrow> nat" where
  "bitLength n = (if n \<le> 0 then 0 else Suc (bitLength (n div 2)))"
  by pat_completeness auto
termination
  by (relation "measure nat") auto

definition roundToDouble :: "int \<Rightarrow> int" where
  \<comment> \<open>The double nearest to a non-negative integer, ties to even: those below \<open>2 ^ 53\<close> are
      doubles; a longer one keeps its 53 leading bits, rounded by the bits dropped.\<close>
  "roundToDouble n =
     (if n < 2 ^ 53 then n
      else
        (let sh = bitLength n - 53;
             q = n div 2 ^ sh;
             r = n mod 2 ^ sh;
             up = (2 ^ sh < 2 * r \<or> (2 * r = 2 ^ sh \<and> odd q))
         in (if up then q + 1 else q) * 2 ^ sh))"


definition parseInt :: "DOMString \<Rightarrow> int option" where
  \<comment> \<open>\<open>None\<close> is \<open>NaN\<close>.  The result is the Number of the code unless \<open>parseOverflows\<close>:
      an integer cannot stand for the infinite Number the code has then.  (Engines round
      decimal strings correctly; the language allows them to drop digits after the 20th.)\<close>
  "parseInt str =
     (case parseDigits str of
        None \<Rightarrow> None
      | Some (neg, mag) \<Rightarrow>
          Some (if neg then - roundToDouble mag else roundToDouble mag))"

subsection \<open>\<open>formatTime\<close> (utils.ts)\<close>

fun decimal :: "nat \<Rightarrow> string" where
  "decimal n =
     (if n < 10 then [''0123456789'' ! n]
      else decimal (n div 10) @ [''0123456789'' ! (n mod 10)])"

definition String_of :: "int \<Rightarrow> string" where
  \<comment> \<open>\<open>String(n)\<close> for an integer below \<open>10 ^ 21\<close>.\<close>
  "String_of n = (if n < 0 then CHR ''-'' # decimal (nat (- n)) else decimal (nat n))"

definition padStart2 :: "string \<Rightarrow> string" where
  \<comment> \<open>\<open>s.padStart(2, '0')\<close>\<close>
  "padStart2 s = replicate (2 - length s) (CHR ''0'') @ s"

definition rem_or0 :: "int \<Rightarrow> int \<Rightarrow> int" where
  \<comment> \<open>\<open>a % b\<close> for a divisor that is a non-zero constant.\<close>
  "rem_or0 a b = (case js_rem a b of Some r \<Rightarrow> r | None \<Rightarrow> 0)"

definition formatTime :: "int \<Rightarrow> string" where
  "formatTime ms =
     (let hours = ms div 3600000;
          minutes = rem_or0 ms 3600000 div 60000;
          seconds = rem_or0 ms 60000 div 1000
      in padStart2 (String_of hours) @ '':'' @ padStart2 (String_of minutes) @ '':''
         @ padStart2 (String_of seconds))"

section \<open>Data model (types.ts and the fields of FocusTimerManager)\<close>

datatype FocusMode = countdown | pomodoro

record FocusSettings =
  mode :: FocusMode
  work :: int
  short :: int
  long :: int
  every :: int

datatype Phase = Work | Short | Long

text \<open>The values of the mode selector, the argument type of \<open>switchPhase\<close>.\<close>

datatype PhaseChoice = work_choice | short_choice | long_choice | verylong_choice

record PomodoroState =
  work :: int
  short :: int
  long :: int
  every :: int
  phase :: Phase
  count :: int

text \<open>
  What the timer hands to its collaborators: the forest module (growth progress, completed
  and cancelled trees) and the notification.  The forest calls are made after a dynamic
  import resolves; they are recorded in the order in which they are issued.
\<close>

datatype Effect = TreeGrowth Number | CompleteTree | CancelTree | Notification

text \<open>
  The private fields of the class, then the closure variable of \<open>throttle\<close>, the DOM
  elements it writes (text of \<open>#display\<close>, value of \<open>#mode\<close>, the dots of \<open>#cycles\<close>, the
  four settings inputs), the settings held by the state manager, and the browser:
  the active intervals, the next timer handle (handles are positive integers), the
  pending throttle timeouts, and the clock.  \<open>clock n\<close> is what the \<open>n\<close>-th call of
  \<open>Date.now()\<close> returns; \<open>reads\<close> counts the calls made so far.
\<close>

record FocusTimerManager =
  timer :: "nat option"
  targetTime :: "int option"
  startTime :: "int option"
  totalDuration :: int
  pomodoroState :: PomodoroState
  inThrottle :: bool
  displayElement :: string
  modeSelect :: PhaseChoice
  cyclesElement :: "bool list"
  pWork :: DOMString
  pShort :: DOMString
  pLong :: DOMString
  pEvery :: DOMString
  savedFocus :: "FocusSettings option"
  intervals :: "nat list"
  nextHandle :: nat
  pendingTimeouts :: nat
  clock :: "nat \<Rightarrow> int"
  reads :: nat
  effects :: "Effect list"

definition DEFAULT_SETTINGS :: FocusSettings where
  "DEFAULT_SETTINGS = \<lparr>mode = pomodoro, work = 25, short = 5, long = 15, every = 4\<rparr>"

definition Date_now :: "FocusTimerManager \<Rightarrow> int \<times> FocusTimerManager" where
  "Date_now s = (clock s (reads s), s\<lparr>reads := Suc (reads s)\<rparr>)"

definition setInterval :: "FocusTimerManager \<Rightarrow> FocusTimerManager" where
  \<comment> \<open>\<open>this.timer = window.setInterval(..., 100)\<close>\<close>
  "setInterval s =
     s\<lparr>timer := Some (nextHandle s), intervals := intervals s @ [nextHandle s],
       nextHandle := Suc (nextHandle s)\<rparr>"

definition choicePhase :: "PhaseChoice \<Rightarrow> Phase" where
  \<comment> \<open>\<open>phase === 'verylong' ? 'long' : phase\<close>\<close>
  "choicePhase c =
     (case c of work_choice \<Rightarrow> Work | short_choice \<Rightarrow> Short | long_choice \<Rightarrow> Long
      | verylong_choice \<Rightarrow> Long)"

definition phaseChoice :: "Phase \<Rightarrow> PhaseChoice" where
  "phaseChoice p = (case p of Work \<Rightarrow> work_choice | Short \<Rightarrow> short_choice | Long \<Rightarrow> long_choice)"

section \<open>Operations of FocusTimerManager\<close>

definition updateDisplay :: "int \<Rightarrow> FocusTimerManager \<Rightarrow> FocusTimerManager" where
  "updateDisplay ms s = s\<lparr>displayElement := formatTime ms\<rparr>"

definition renderCycles :: "FocusTimerManager \<Rightarrow> FocusTimerManager" where
  \<comment> \<open>One dot for each \<open>i < every\<close>, lit when \<open>i < count\<close>.\<close>
  "renderCycles s =
     s\<lparr>cyclesElement :=
         map (\<lambda>i. int i < count (pomodoroState s)) [0 ..< nat (every (pomodoroState s))]\<rparr>"

definition getCurrentPhaseDuration :: "int option \<Rightarrow> FocusTimerManager \<Rightarrow> int" where
  "getCurrentPhaseDuration override s =
     (if truthy override then (case override of Some v \<Rightarrow> v | None \<Rightarrow> 0)
      else (case phase (pomodoroState s) of
              Work \<Rightarrow> work (pomodoroState s)
            | Short \<Rightarrow> short (pomodoroState s)
            | Long \<Rightarrow> long (pomodoroState s)))"

definition pause :: "FocusTimerManager \<Rightarrow> FocusTimerManager" where
  "pause s =
     (case timer s of
        None \<Rightarrow> s
      | Some h \<Rightarrow> if h = 0 then s else s\<lparr>timer := None, intervals := removeAll h (intervals s)\<rparr>)"

definition clearRun :: "FocusTimerManager \<Rightarrow> FocusTimerManager" where
  \<comment> \<open>\<open>targetTime = null; startTime = null; totalDuration = 0\<close>\<close>
  "clearRun s = s\<lparr>targetTime := None, startTime := None, totalDuration := 0\<rparr>"

definition switchPhase :: "PhaseChoice \<Rightarrow> FocusTimerManager \<Rightarrow> FocusTimerManager" where
  "switchPhase c s =
     (let s1 = (if truthy (timer s) then pause s else s);
          s2 = s1\<lparr>pomodoroState := (pomodoroState s1)\<lparr>phase := choicePhase c\<rparr>\<rparr>;
          minutes = getCurrentPhaseDuration (if c = verylong_choice then Some 30 else None) s2
      in clearRun (updateDisplay (minutes * 60 * 1000) s2))"

definition reset :: "FocusTimerManager \<Rightarrow> FocusTimerManager" where
  "reset s =
     (let s1 = clearRun (pause s);
          s2 = s1\<lparr>pomodoroState := (pomodoroState s1)\<lparr>phase := Work, count := 0\<rparr>,
                  modeSelect := work_choice\<rparr>;
          s3 = renderCycles (updateDisplay (work (pomodoroState s2) * 60 * 1000) s2)
      in s3\<lparr>effects := effects s3 @ [CancelTree]\<rparr>)"

text \<open>The three states of the timer engine, read off the fields as the code tests them.\<close>

definition Running :: "FocusTimerManager \<Rightarrow> bool" where
  "Running s = truthy (timer s)"


definition Paused :: "FocusTimerManager \<Rightarrow> bool" where
  "Paused s = (\<not> truthy (timer s) \<and> truthy (targetTime s))"

subsection \<open>Settings\<close>

definition readSettings :: "FocusTimerManager \<Rightarrow> FocusTimerManager" where
  \<comment> \<open>The four assignments \<open>pomodoroState.x = parseInt(input.value) || DEFAULT_SETTINGS.x\<close>
      that open \<open>handleSettingsInput\<close> and \<open>handleSettingsChange\<close>.\<close>
  "readSettings s =
     s\<lparr>pomodoroState := (pomodoroState s)
         \<lparr>work := js_or (parseInt (pWork s)) (FocusSettings.work DEFAULT_SETTINGS),
          short := js_or (parseInt (pShort s)) (FocusSettings.short DEFAULT_SETTINGS),
          long := js_or (parseInt (pLong s)) (FocusSettings.long DEFAULT_SETTINGS),
          every := js_or (parseInt (pEvery s)) (FocusSettings.every DEFAULT_SETTINGS)\<rparr>\<rparr>"

definition previewDisplay :: "FocusTimerManager \<Rightarrow> FocusTimerManager" where
  \<comment> \<open>\<open>if (!this.timer) updateDisplay(getCurrentPhaseDuration() * 60 * 1000)\<close>\<close>
  "previewDisplay s =
     (if \<not> truthy (timer s) then updateDisplay (getCurrentPhaseDuration None s * 60 * 1000) s
      else s)"

definition handleSettingsInput :: "FocusTimerManager \<Rightarrow> FocusTimerManager" where
  "handleSettingsInput s = previewDisplay (readSettings s)"

definition saveSettings :: "FocusTimerManager \<Rightarrow> FocusTimerManager" where
  \<comment> \<open>\<open>state.updateFocusSettings(settings)\<close> (state.ts) sets \<open>state.focus\<close>, which is what
      \<open>savedFocus\<close> stands for; it then writes to the local storage, which may fail and is
      not read back, and notifies the listeners, which do not touch the timer.\<close>
  "saveSettings s =
     s\<lparr>savedFocus := Some \<lparr>mode = pomodoro, work = work (pomodoroState s),
         short = short (pomodoroState s), long = long (pomodoroState s),
         every = every (pomodoroState s)\<rparr>\<rparr>"

definition handleSettingsChange :: "FocusTimerManager \<Rightarrow> FocusTimerManager" where
  "handleSettingsChange s = previewDisplay (renderCycles (saveSettings (readSettings s)))"

definition syncSettingsToUI :: "FocusTimerManager \<Rightarrow> FocusTimerManager" where
  "syncSettingsToUI s =
     s\<lparr>pWork := ascii (String_of (work (pomodoroState s))),
       pShort := ascii (String_of (short (pomodoroState s))),
       pLong := ascii (String_of (long (pomodoroState s))),
       pEvery := ascii (String_of (every (pomodoroState s)))\<rparr>"

subsection \<open>Starting, ticking and completing a phase\<close>

definition phaseMinutes :: "FocusTimerManager \<Rightarrow> int" where
  \<comment> \<open>The conditional on \<open>phase\<close> written out in \<open>startPomodoro\<close>.\<close>
  "phaseMinutes s =
     (case phase (pomodoroState s) of
        Work \<Rightarrow> work (pomodoroState s)
      | Short \<Rightarrow> short (pomodoroState s)
      | Long \<Rightarrow> long (pomodoroState s))"

definition freshRun :: "FocusTimerManager \<Rightarrow> FocusTimerManager" where
  \<comment> \<open>The branch \<open>!this.targetTime\<close> of \<open>startPomodoro\<close>.\<close>
  "freshRun s =
     (let minutes = phaseMinutes s;
          (now, s1) = Date_now s
      in s1\<lparr>startTime := Some now, totalDuration := minutes * 60 * 1000,
            targetTime := Some (now + minutes * 60 * 1000)\<rparr>)"

definition resumeRun :: "int \<Rightarrow> FocusTimerManager \<Rightarrow> FocusTimerManager" where
  \<comment> \<open>The branch "resuming from pause" of \<open>startPomodoro\<close>; \<open>tt\<close> is \<open>this.targetTime\<close>.\<close>
  "resumeRun tt s =
     (let (now1, s1) = Date_now s;
          remainingTime = tt - now1
      in if 0 < remainingTime then
           (let (now2, s2) = Date_now s1
            in s2\<lparr>startTime := Some now2, totalDuration := remainingTime,
                  targetTime := Some (now2 + remainingTime)\<rparr>)
         else s1)"

definition beginRun :: "FocusTimerManager \<Rightarrow> FocusTimerManager" where
  \<comment> \<open>\<open>startPomodoro\<close> up to and including \<open>setInterval\<close>, before its call of \<open>tickPomodoro\<close>.\<close>
  "beginRun s =
     setInterval
       (case targetTime s of
          None \<Rightarrow> freshRun s
        | Some tt \<Rightarrow> if tt = 0 then freshRun s else resumeRun tt s)"

definition tickUpdate :: "int \<Rightarrow> int \<Rightarrow> FocusTimerManager \<Rightarrow> int \<times> FocusTimerManager" where
  \<comment> \<open>The tick from \<open>const now = Date.now()\<close> to the tree growth; \<open>tt\<close> and \<open>st\<close> are
      \<open>this.targetTime\<close> and \<open>this.startTime\<close>.  Returns \<open>diff\<close> with the state.\<close>
  "tickUpdate tt st s =
     (let (now, s1) = Date_now s;
          diff = max 0 (tt - now);
          elapsed = now - st;
          progress = Math_min1 (js_div elapsed (totalDuration s1));
          s2 = updateDisplay diff s1;
          s3 = (if phase (pomodoroState s2) = Work
                then s2\<lparr>effects := effects s2 @ [TreeGrowth progress]\<rparr> else s2)
      in (diff, s3))"

definition completePhase :: "FocusTimerManager \<Rightarrow> FocusTimerManager" where
  \<comment> \<open>\<open>handlePomodoroPhaseComplete\<close> up to its last statement, the auto-start.\<close>
  "completePhase s =
     (let s1 = pause (s\<lparr>effects := effects s @ [Notification]\<rparr>);
          s2 = (if phase (pomodoroState s1) = Work then
                  (let s1a = s1\<lparr>pomodoroState := (pomodoroState s1)
                                 \<lparr>count := count (pomodoroState s1) + 1\<rparr>\<rparr>;
                       s1b = renderCycles s1a;
                       s1c = s1b\<lparr>effects := effects s1b @ [CompleteTree]\<rparr>;
                       isLongBreak =
                         (js_rem (count (pomodoroState s1c)) (every (pomodoroState s1c)) = Some 0)
                   in s1c\<lparr>pomodoroState := (pomodoroState s1c)
                            \<lparr>phase := (if isLongBreak then Long else Short)\<rparr>\<rparr>)
                else s1\<lparr>pomodoroState := (pomodoroState s1)\<lparr>phase := Work\<rparr>\<rparr>);
          s3 = s2\<lparr>modeSelect := phaseChoice (phase (pomodoroState s2))\<rparr>;
          s4 = clearRun s3
      in updateDisplay (getCurrentPhaseDuration None s4 * 60 * 1000) s4)"

definition throttleArm :: "FocusTimerManager \<Rightarrow> FocusTimerManager" where
  \<comment> \<open>\<open>inThrottle = true; setTimeout(() => (inThrottle = false), limit)\<close>\<close>
  "throttleArm s = s\<lparr>inThrottle := True, pendingTimeouts := Suc (pendingTimeouts s)\<rparr>"

definition throttleTimeout :: "FocusTimerManager \<Rightarrow> FocusTimerManager" where
  \<comment> \<open>One pending timeout of \<open>throttle\<close> fires.\<close>
  "throttleTimeout s =
     (if pendingTimeouts s = 0 then s
      else s\<lparr>inThrottle := False, pendingTimeouts := pendingTimeouts s - 1\<rparr>)"

text \<open>
  The function passed to \<open>throttle\<close>.  It calls \<open>handlePomodoroPhaseComplete\<close>, which calls
  \<open>startPomodoro\<close>, which calls the throttled \<open>tickPomodoro\<close>, which (the flag \<open>inThrottle\<close>
  is set only after the function returns) calls the function again.  Nothing bounds this
  recursion when the durations are not positive, so the result is an option: \<open>None\<close> is the
  recursion that never returns.  The calls are written inline here and named below.
\<close>

partial_function (option) tickBody :: "FocusTimerManager \<Rightarrow> FocusTimerManager option" where
  "tickBody s =
     (case targetTime s of
        None \<Rightarrow> Some s
      | Some tt \<Rightarrow>
         (case startTime s of
            None \<Rightarrow> Some s
          | Some st \<Rightarrow>
             if tt = 0 \<or> st = 0 then Some s
             else
               (let r = tickUpdate tt st s in
                if fst r \<le> 0 then
                  (let s2 = beginRun (completePhase (snd r)) in
                   if inThrottle s2 then Some s2
                   else Option.bind (tickBody s2) (\<lambda>s3. Some (throttleArm s3)))
                else Some (snd r))))"

declare tickBody.simps [code]

definition tickPomodoro :: "FocusTimerManager \<Rightarrow> FocusTimerManager option" where
  \<comment> \<open>\<open>throttle(fn, 100)\<close>: a call while \<open>inThrottle\<close> is set does nothing.\<close>
  "tickPomodoro s =
     (if inThrottle s then Some s else Option.bind (tickBody s) (\<lambda>s'. Some (throttleArm s')))"

definition startPomodoro :: "FocusTimerManager \<Rightarrow> FocusTimerManager option" where
  "startPomodoro s = tickPomodoro (beginRun s)"

definition handlePomodoroPhaseComplete :: "FocusTimerManager \<Rightarrow> FocusTimerManager option" where
  "handlePomodoroPhaseComplete s = startPomodoro (completePhase s)"

definition start :: "FocusTimerManager \<Rightarrow> FocusTimerManager option" where
  "start s = (if truthy (timer s) then Some s else startPomodoro s)"

subsection \<open>Construction and initialisation\<close>

definition init :: "FocusSettings option \<Rightarrow> (nat \<Rightarrow> int) \<Rightarrow> FocusTimerManager" where
  \<comment> \<open>The constructor followed by \<open>init()\<close>; \<open>saved\<close> is \<open>state.getState().focus\<close>.\<close>
  "init saved clk =
     (let cfg = (case saved of Some f \<Rightarrow> f | None \<Rightarrow> DEFAULT_SETTINGS);
          s0 = \<lparr>timer = None, targetTime = None, startTime = None, totalDuration = 0,
                pomodoroState = \<lparr>work = FocusSettings.work cfg, short = FocusSettings.short cfg,
                  long = FocusSettings.long cfg, every = FocusSettings.every cfg,
                  phase = Work, count = 0\<rparr>,
                inThrottle = False, displayElement = [], modeSelect = work_choice,
                cyclesElement = [], pWork = [], pShort = [], pLong = [], pEvery = [],
                savedFocus = saved, intervals = [], nextHandle = 1, pendingTimeouts = 0,
                clock = clk, reads = 0, effects = []\<rparr>;
          s1 = renderCycles (syncSettingsToUI s0)
      in updateDisplay (work (pomodoroState s1) * 60 * 1000) s1)"

definition resetToDefaults :: "FocusTimerManager \<Rightarrow> FocusTimerManager" where
  "resetToDefaults s =
     (let s1 = reset s;
          s2 = s1\<lparr>pomodoroState := (pomodoroState s1)
                 \<lparr>work := FocusSettings.work DEFAULT_SETTINGS,
                  short := FocusSettings.short DEFAULT_SETTINGS,
                  long := FocusSettings.long DEFAULT_SETTINGS,
                  every := FocusSettings.every DEFAULT_SETTINGS\<rparr>\<rparr>;
          s3 = syncSettingsToUI s2
      in s3\<lparr>savedFocus := Some DEFAULT_SETTINGS, modeSelect := work_choice\<rparr>)"

subsection \<open>The events of the page\<close>

text \<open>
  The states the timer can be in: the initialised object, then any sequence of the event
  handlers registered in \<open>setupControls\<close> (the three buttons, the mode selector, typing
  into and committing the settings inputs), the interval callback, the timeout of
  \<open>throttle\<close>, and \<open>resetToDefaults\<close>.  A call that does not return leads nowhere.
\<close>

inductive reachable :: "FocusTimerManager \<Rightarrow> bool" where
  r_init: "reachable (init saved clk)"
| r_start: "reachable s \<Longrightarrow> start s = Some s' \<Longrightarrow> reachable s'"
| r_pause: "reachable s \<Longrightarrow> reachable (pause s)"
| r_reset: "reachable s \<Longrightarrow> reachable (reset s)"
| r_defaults: "reachable s \<Longrightarrow> reachable (resetToDefaults s)"
| r_switch: "reachable s \<Longrightarrow> reachable (switchPhase c (s\<lparr>modeSelect := c\<rparr>))"
| r_tick: "reachable s \<Longrightarrow> tickPomodoro s = Some s' \<Longrightarrow> reachable s'"
| r_complete: "reachable s \<Longrightarrow> handlePomodoroPhaseComplete s = Some s' \<Longrightarrow> reachable s'"
| r_timeout: "reachable s \<Longrightarrow> reachable (throttleTimeout s)"
| r_input:
    "reachable s \<Longrightarrow>
     reachable (handleSettingsInput (s\<lparr>pWork := a, pShort := b, pLong := c, pEvery := d\<rparr>))"
| r_change:
    "reachable s \<Longrightarrow>
     reachable (handleSettingsChange (s\<lparr>pWork := a, pShort := b, pLong := c, pEvery := d\<rparr>))"

text \<open>
  What the operations keep true of the run: the two timestamps are set together, a set
  interval handle goes with set timestamps, and handles are positive.
\<close>

definition run_inv :: "FocusTimerManager \<Rightarrow> bool" where
  "run_inv s =
     (((startTime s = None) = (targetTime s = None))
      \<and> (timer s = None \<or> (startTime s \<noteq> None \<and> targetTime s \<noteq> None))
      \<and> timer s \<noteq> Some 0 \<and> 0 < nextHandle s)"

section \<open>The exam list of the state manager (state.ts)\<close>

record Exam =
  exam_id :: string
  title :: string
  date :: string
  time :: "string option"
  tag :: string
  exam_notes :: "string option"
  createdAt :: string
  completed :: "bool option"

definition EXAMS_MAX :: nat where
  \<comment> \<open>\<open>LIMITS.EXAMS_MAX\<close> (types.ts)\<close>
  "EXAMS_MAX = 1000"

datatype error = TypeError

definition isDigit :: "char \<Rightarrow> bool" where
  "isDigit c = (48 \<le> (of_char c :: nat) \<and> (of_char c :: nat) \<le> 57)"

definition isDateOnly :: "string \<Rightarrow> bool" where
  \<comment> \<open>\<open>/^\\d{4}-\\d{2}-\\d{2}$/.test(s)\<close>: ten characters, all of them ASCII.\<close>
  "isDateOnly s =
     (length s = 10 \<and> list_all isDigit (take 4 s) \<and> s ! 4 = CHR ''-''
      \<and> list_all isDigit (take 2 (drop 5 s)) \<and> s ! 7 = CHR ''-''
      \<and> list_all isDigit (drop 8 s))"

definition extractDateString :: "(string \<Rightarrow> string option) \<Rightarrow> string \<Rightarrow> error + string" where
  \<comment> \<open>For a string argument.  \<open>localDate d\<close> stands for \<open>formatDate(new Date(d))\<close>: the local
      calendar date of the parsed instant, \<open>None\<close> when the date is invalid, in which case
      \<open>formatDate\<close> throws a \<open>TypeError\<close>.  It depends on the engine and the time zone.\<close>
  "extractDateString localDate d =
     (if isDateOnly d then Inr d
      else (case localDate d of None \<Rightarrow> Inl TypeError | Some f \<Rightarrow> Inr f))"

text \<open>
  The storage manager (\<open>StorageManager.save\<close>): a save stores the value, or fails because
  the storage is not available, because the serialised value exceeds \<open>LIMITS.STORAGE_MAX\<close>,
  because \<open>setItem\<close> throws \<open>QuotaExceededError\<close>, or for another error that it catches.
  Which of these happens depends on the browser and on the size of the serialised value, so
  it is given from outside, for each of the three keys that \<open>persist\<close> saves.  Two of the
  failures show a toast; none is raised to the caller.
\<close>

datatype StorageKey = EXAMS | TIMETABLE | FOCUS

datatype SaveOutcome = Saved | NotAvailable | ExceedsLimit | QuotaExceeded | OtherError

record StateManager =
  exams :: "Exam list"
  toasts :: "(string \<times> nat) list"
  localExams :: "Exam list"
  notifications :: nat

definition showToast :: "string \<Rightarrow> nat \<Rightarrow> StateManager \<Rightarrow> StateManager" where
  "showToast message duration s = s\<lparr>toasts := toasts s @ [(message, duration)]\<rparr>"

definition saveToasts :: "SaveOutcome \<Rightarrow> (string \<times> nat) list" where
  \<comment> \<open>The toast of one call of \<open>storage.save\<close>.\<close>
  "saveToasts outcome =
     (case outcome of
        ExceedsLimit \<Rightarrow> [(''Storage limit reached! Please export your data.'', 5000)]
      | QuotaExceeded \<Rightarrow> [(''Storage full! Please export and clear old data.'', 5000)]
      | _ \<Rightarrow> [])"

definition persist :: "(StorageKey \<Rightarrow> SaveOutcome) \<Rightarrow> StateManager \<Rightarrow> StateManager" where
  \<comment> \<open>The three saves of \<open>persist\<close>, in their order; \<open>localExams\<close> is what the local storage
      holds under the key of the exams.\<close>
  "persist store s =
     s\<lparr>localExams := (if store EXAMS = Saved then exams s else localExams s),
       toasts := toasts s @ saveToasts (store EXAMS) @ saveToasts (store TIMETABLE)
                   @ saveToasts (store FOCUS)\<rparr>"

definition notify :: "StateManager \<Rightarrow> StateManager" where
  \<comment> \<open>Every listener is called inside \<open>try\<close>; the listeners of this repository render views
      and show no toast.\<close>
  "notify s = s\<lparr>notifications := Suc (notifications s)\<rparr>"

fun someDuplicate ::
  "(string \<Rightarrow> string) \<Rightarrow> (string \<Rightarrow> string option) \<Rightarrow> Exam \<Rightarrow> string \<Rightarrow> Exam list
    \<Rightarrow> error + bool" where
  \<comment> \<open>\<open>this.state.exams.some(...)\<close>: the callback normalises the stored date first, which may
      throw, and the scan stops at the first match.\<close>
  "someDuplicate toLowerCase localDate exam newExamDate [] = Inr False"
| "someDuplicate toLowerCase localDate exam newExamDate (e # es) =
     (case extractDateString localDate (date e) of
        Inl err \<Rightarrow> Inl err
      | Inr existingDate \<Rightarrow>
          if toLowerCase (title e) = toLowerCase (title exam) \<and> existingDate = newExamDate
          then Inr True
          else someDuplicate toLowerCase localDate exam newExamDate es)"

definition addExam ::
  "(string \<Rightarrow> string) \<Rightarrow> (string \<Rightarrow> string option) \<Rightarrow> (StorageKey \<Rightarrow> SaveOutcome)
    \<Rightarrow> Exam \<Rightarrow> StateManager \<Rightarrow> error + (bool \<times> StateManager)" where
  \<comment> \<open>\<open>toLowerCase\<close> is \<open>String.prototype.toLowerCase\<close>, with the case tables of the engine;
      \<open>localDate\<close> and \<open>store\<close> are as above.  \<open>Inl\<close> is the exception that leaves
      \<open>addExam\<close>, with the state as it was.\<close>
  "addExam toLowerCase localDate store exam s =
     (if EXAMS_MAX \<le> length (exams s)
      then Inr (False, showToast ''Maximum 1000 exams reached!'' 5000 s)
      else
        (case extractDateString localDate (date exam) of
           Inl err \<Rightarrow> Inl err
         | Inr newExamDate \<Rightarrow>
            (case someDuplicate toLowerCase localDate exam newExamDate (exams s) of
               Inl err \<Rightarrow> Inl err
             | Inr isDuplicate \<Rightarrow>
                (let s1 = (if isDuplicate then showToast ''Similar exam already exists!'' 3000 s
                           else s);
                     s2 = s1\<lparr>exams := exams s1 @ [exam]\<rparr>
                 in Inr (True, notify (persist store s2))))))"

section \<open>Example runs\<close>







text \<open>
  A work phase started at 1000000 ms, ticked one minute later, paused, and resumed five
  minutes after the pause.
\<close>

definition pausing_clock :: "nat \<Rightarrow> int" where
  "pausing_clock n = (if n < 2 then 1000000 else if n = 2 then 1060000 else 1360000)"

definition started_example :: FocusTimerManager where
  "started_example = the (start (init None pausing_clock))"

definition paused_example :: FocusTimerManager where
  "paused_example =
     pause (throttleTimeout (the (tickPomodoro (throttleTimeout started_example))))"

definition resumed_example :: FocusTimerManager where
  "resumed_example = the (start paused_example)"





text \<open>A running work phase during which the user has typed new settings.\<close>

definition retuned_example :: FocusTimerManager where
  "retuned_example =
     (the (start (init None (\<lambda>n. 1000000))))
       \<lparr>pWork := ascii ''50'', pShort := ascii ''10'', pLong := ascii ''abc'',
        pEvery := ascii ''7''\<rparr>"

text \<open>
  For the examples: the time zone UTC on ISO timestamps, lower case on ASCII titles, and a
  storage in which every save succeeds.
\<close>

definition utcDate :: "string \<Rightarrow> string option" where
  "utcDate d = (if isDateOnly (take 10 d) then Some (take 10 d) else None)"

definition asciiLower :: "string \<Rightarrow> string" where
  "asciiLower s =
     map (\<lambda>c. if 65 \<le> (of_char c :: nat) \<and> (of_char c :: nat) \<le> 90
              then char_of ((of_char c :: nat) + 32) else c) s"

definition allSaved :: "StorageKey \<Rightarrow> SaveOutcome" where
  "allSaved k = Saved"

definition maths_exam :: Exam where
  "maths_exam = \<lparr>exam_id = ''a1'', title = ''Maths'', date = ''2025-01-15'', time = None,
     tag = ''#fff5b1'', exam_notes = None, createdAt = ''2024-12-01T10:00:00.000Z'',
     completed = None\<rparr>"

definition maths_again :: Exam where
  "maths_again = \<lparr>exam_id = ''b2'', title = ''MATHS'', date = ''2025-01-15T09:30:00.000Z'',
     time = Some ''09:30'', tag = ''#fff5b1'', exam_notes = None,
     createdAt = ''2024-12-02T10:00:00.000Z'', completed = None\<rparr>"

definition undated_exam :: Exam where
  \<comment> \<open>An exam as the storage manager loads it: it checks that the date is a string.\<close>
  "undated_exam = \<lparr>exam_id = ''c3'', title = ''Physics'', date = ''soon'', time = None,
     tag = ''#fff5b1'', exam_notes = None, createdAt = ''2024-12-01T10:00:00.000Z'',
     completed = None\<rparr>"

definition one_exam :: StateManager where
  "one_exam = \<lparr>exams = [maths_exam], toasts = [], localExams = [maths_exam], notifications = 0\<rparr>"

definition two_exams :: StateManager where
  "two_exams = \<lparr>exams = [undated_exam, maths_exam], toasts = [],
     localExams = [undated_exam, maths_exam], notifications = 0\<rparr>"

definition full_list :: StateManager where
  "full_list = \<lparr>exams = replicate 1000 maths_exam, toasts = [],
     localExams = replicate 1000 maths_exam, notifications = 0\<rparr>"

section \<open>Verified properties\<close>

subsection \<open>Reset, manual phase switch, start\<close>

lemma pause_not_truthy: "\<not> truthy (timer (pause s))"
  by (simp add: pause_def truthy_def split: option.splits)

lemma reset_cleared:
  "\<not> truthy (timer (reset s))" "startTime (reset s) = None" "targetTime (reset s) = None"
  "totalDuration (reset s) = 0"
proof -
  have "timer (reset s) = timer (pause s)"
    by (simp add: reset_def Let_def renderCycles_def updateDisplay_def clearRun_def)
  then show "\<not> truthy (timer (reset s))"
    by (simp add: pause_not_truthy)
qed (simp_all add: reset_def Let_def renderCycles_def updateDisplay_def clearRun_def)




text \<open>
  Claim C8.  While the timer is running, \<open>start\<close> returns the state it was given: no timer
  field changes, the list of active intervals is the same (no second periodic callback),
  and the countdown is as before.
\<close>

theorem start_while_running_noop: "Running s \<Longrightarrow> start s = Some s"
  by (simp add: Running_def start_def)

theorem start_while_running_noop_witness:
  "Running (the (start (init None (\<lambda>n. 1000000))))
   \<and> start (the (start (init None (\<lambda>n. 1000000)))) = Some (the (start (init None (\<lambda>n. 1000000))))"
proof -
  have r: "Running (the (start (init None (\<lambda>n. 1000000))))"
    by code_simp
  from start_while_running_noop [OF r] r show ?thesis by simp
qed

subsection \<open>Ticks and phase completion\<close>


lemma tickUpdate_fields:
  "fst (tickUpdate tt st s) = max 0 (tt - clock s (reads s))"
  "pomodoroState (snd (tickUpdate tt st s)) = pomodoroState s"
  "timer (snd (tickUpdate tt st s)) = timer s"
  "targetTime (snd (tickUpdate tt st s)) = targetTime s"
  "startTime (snd (tickUpdate tt st s)) = startTime s"
  "totalDuration (snd (tickUpdate tt st s)) = totalDuration s"
  "intervals (snd (tickUpdate tt st s)) = intervals s"
  "nextHandle (snd (tickUpdate tt st s)) = nextHandle s"
  "inThrottle (snd (tickUpdate tt st s)) = inThrottle s"
  "clock (snd (tickUpdate tt st s)) = clock s"
  "reads (snd (tickUpdate tt st s)) = Suc (reads s)"
  "displayElement (snd (tickUpdate tt st s)) = formatTime (max 0 (tt - clock s (reads s)))"
  "effects (snd (tickUpdate tt st s)) = effects s @
     (if phase (pomodoroState s) = Work
      then [TreeGrowth (Math_min1 (js_div (clock s (reads s) - st) (totalDuration s)))] else [])"
  by (simp_all add: tickUpdate_def Date_now_def Let_def updateDisplay_def)

lemma throttleArm_fields:
  "pomodoroState (throttleArm s) = pomodoroState s" "timer (throttleArm s) = timer s"
  "targetTime (throttleArm s) = targetTime s" "startTime (throttleArm s) = startTime s"
  "totalDuration (throttleArm s) = totalDuration s" "intervals (throttleArm s) = intervals s"
  "nextHandle (throttleArm s) = nextHandle s" "displayElement (throttleArm s) = displayElement s"
  "effects (throttleArm s) = effects s" "inThrottle (throttleArm s)"
  "clock (throttleArm s) = clock s" "reads (throttleArm s) = reads s"
  by (simp_all add: throttleArm_def)


lemma pause_frame:
  "pomodoroState (pause s) = pomodoroState s" "targetTime (pause s) = targetTime s"
  "startTime (pause s) = startTime s" "totalDuration (pause s) = totalDuration s"
  "clock (pause s) = clock s" "reads (pause s) = reads s" "effects (pause s) = effects s"
  "displayElement (pause s) = displayElement s" "inThrottle (pause s) = inThrottle s"
  "nextHandle (pause s) = nextHandle s"
  by (simp_all add: pause_def split: option.splits)

lemma completePhase_cleared:
  "targetTime (completePhase s) = None" "startTime (completePhase s) = None"
  "totalDuration (completePhase s) = 0"
  by (simp_all add: completePhase_def Let_def updateDisplay_def clearRun_def)

lemma completePhase_clock:
  "clock (completePhase s) = clock s" "reads (completePhase s) = reads s"
  "nextHandle (completePhase s) = nextHandle s" "inThrottle (completePhase s) = inThrottle s"
  by (simp_all add: completePhase_def Let_def updateDisplay_def clearRun_def renderCycles_def
      pause_frame)

lemma beginRun_fresh:
  assumes "\<not> truthy (targetTime s)"
  shows "startTime (beginRun s) = Some (clock s (reads s))"
    and "totalDuration (beginRun s) = phaseMinutes s * 60 * 1000"
    and "targetTime (beginRun s) = Some (clock s (reads s) + phaseMinutes s * 60 * 1000)"
    and "pomodoroState (beginRun s) = pomodoroState s"
    and "timer (beginRun s) = Some (nextHandle s)"
    and "reads (beginRun s) = Suc (reads s)"
    and "clock (beginRun s) = clock s"
    and "inThrottle (beginRun s) = inThrottle s"
    and "displayElement (beginRun s) = displayElement s"
    and "effects (beginRun s) = effects s"
  using assms
  by (simp_all add: beginRun_def freshRun_def setInterval_def Date_now_def Let_def truthy_def
      split: option.splits)









subsection \<open>Settings\<close>




lemma readSettings_fields:
  "work (pomodoroState (readSettings s)) = js_or (parseInt (pWork s)) 25"
  "short (pomodoroState (readSettings s)) = js_or (parseInt (pShort s)) 5"
  "long (pomodoroState (readSettings s)) = js_or (parseInt (pLong s)) 15"
  "every (pomodoroState (readSettings s)) = js_or (parseInt (pEvery s)) 4"
  "phase (pomodoroState (readSettings s)) = phase (pomodoroState s)"
  "count (pomodoroState (readSettings s)) = count (pomodoroState s)"
  by (simp_all add: readSettings_def DEFAULT_SETTINGS_def)

lemma handleSettingsChange_pomodoroState:
  "pomodoroState (handleSettingsChange s) = pomodoroState (readSettings s)"
  by (simp add: handleSettingsChange_def previewDisplay_def renderCycles_def saveSettings_def
      updateDisplay_def)


lemma parseInt_examples:
  "parseInt (ascii ''-5'') = Some (- 5)" "parseInt (ascii ''abc'') = None"
  "parseInt (ascii ''0'') = Some 0" "parseInt (ascii ''7'') = Some 7"
  "parseInt (ascii ''50'') = Some 50" "parseInt (ascii ''10'') = Some 10"
  "parseInt (0xA0 # ascii ''8'') = Some 8"
  "parseInt (ascii ''9007199254740993'') = Some 9007199254740992"
  "parseInt (ascii '' 0x1F min'') = Some 31"
  by code_simp+


lemma parseInt_exact:
  assumes "parseDigits str = Some (neg, m)" and "m < 2 ^ 53"
  shows "parseInt str = Some (if neg then - m else m)"
  using assms by (simp add: parseInt_def roundToDouble_def)



lemma previewDisplay_frame:
  "targetTime (previewDisplay s) = targetTime s" "startTime (previewDisplay s) = startTime s"
  "totalDuration (previewDisplay s) = totalDuration s" "timer (previewDisplay s) = timer s"
  "intervals (previewDisplay s) = intervals s"
  "truthy (timer s) \<Longrightarrow> displayElement (previewDisplay s) = displayElement s"
  by (simp_all add: previewDisplay_def updateDisplay_def)

lemma handleSettingsChange_frame:
  "targetTime (handleSettingsChange s) = targetTime s"
  "startTime (handleSettingsChange s) = startTime s"
  "totalDuration (handleSettingsChange s) = totalDuration s"
  "timer (handleSettingsChange s) = timer s"
  "intervals (handleSettingsChange s) = intervals s"
  "truthy (timer s) \<Longrightarrow> displayElement (handleSettingsChange s) = displayElement s"
  by (simp_all add: handleSettingsChange_def previewDisplay_frame renderCycles_def
      saveSettings_def readSettings_def)

lemma handleSettingsInput_frame:
  "targetTime (handleSettingsInput s) = targetTime s"
  "startTime (handleSettingsInput s) = startTime s"
  "totalDuration (handleSettingsInput s) = totalDuration s"
  "timer (handleSettingsInput s) = timer s"
  "intervals (handleSettingsInput s) = intervals s"
  "truthy (timer s) \<Longrightarrow> displayElement (handleSettingsInput s) = displayElement s"
  by (simp_all add: handleSettingsInput_def previewDisplay_frame readSettings_def)

lemma completePhase_settings:
  "work (pomodoroState (completePhase s)) = work (pomodoroState s)"
  "short (pomodoroState (completePhase s)) = short (pomodoroState s)"
  "long (pomodoroState (completePhase s)) = long (pomodoroState s)"
  "every (pomodoroState (completePhase s)) = every (pomodoroState s)"
  by (simp_all add: completePhase_def Let_def updateDisplay_def clearRun_def renderCycles_def
      pause_frame)

text \<open>
  Claim C7.  While the timer is running, neither settings handler changes the target
  time, the start time or the total duration of the run in flight, nor the interval or the
  display; the phase that begins after the mutation takes its duration from the new
  settings.
\<close>

theorem settings_do_not_touch_run:
  assumes "Running s"
  defines "c \<equiv> handleSettingsChange s" and "i \<equiv> handleSettingsInput s"
  shows "targetTime c = targetTime s \<and> startTime c = startTime s
    \<and> totalDuration c = totalDuration s \<and> timer c = timer s \<and> intervals c = intervals s
    \<and> displayElement c = displayElement s
    \<and> targetTime i = targetTime s \<and> startTime i = startTime s
    \<and> totalDuration i = totalDuration s \<and> timer i = timer s \<and> intervals i = intervals s
    \<and> displayElement i = displayElement s
    \<and> totalDuration (beginRun (completePhase c)) = phaseMinutes (completePhase c) * 60 * 1000
    \<and> phaseMinutes (completePhase c) =
        (case phase (pomodoroState (completePhase c)) of
           Work \<Rightarrow> js_or (parseInt (pWork s)) 25
         | Short \<Rightarrow> js_or (parseInt (pShort s)) 5
         | Long \<Rightarrow> js_or (parseInt (pLong s)) 15)"
proof -
  have r: "truthy (timer s)"
    using assms(1) by (simp add: Running_def)
  have f: "\<not> truthy (targetTime (completePhase c))"
    by (simp add: completePhase_cleared truthy_def)
  have m: "phaseMinutes (completePhase c) =
        (case phase (pomodoroState (completePhase c)) of
           Work \<Rightarrow> js_or (parseInt (pWork s)) 25
         | Short \<Rightarrow> js_or (parseInt (pShort s)) 5
         | Long \<Rightarrow> js_or (parseInt (pLong s)) 15)"
    by (simp add: phaseMinutes_def completePhase_settings c_def
        handleSettingsChange_pomodoroState readSettings_fields split: Phase.splits)
  show ?thesis
    using r m beginRun_fresh(2) [OF f]
    by (simp add: c_def i_def handleSettingsChange_frame handleSettingsInput_frame)
qed

theorem settings_do_not_touch_run_witness:
  "Running retuned_example
   \<and> targetTime (handleSettingsChange retuned_example) = Some 2500000
   \<and> startTime (handleSettingsChange retuned_example) = Some 1000000
   \<and> totalDuration (handleSettingsChange retuned_example) = 1500000
   \<and> work (pomodoroState (handleSettingsChange retuned_example)) = 50
   \<and> totalDuration (beginRun (completePhase (handleSettingsChange retuned_example))) = 600000"
proof -
  have r: "Running retuned_example"
    by code_simp
  have v: "targetTime retuned_example = Some 2500000" "startTime retuned_example = Some 1000000"
    "totalDuration retuned_example = 1500000"
    "phase (pomodoroState (completePhase (handleSettingsChange retuned_example))) = Short"
    by code_simp+
  have i: "pWork retuned_example = ascii ''50''" "pShort retuned_example = ascii ''10''"
    by (simp_all add: retuned_example_def)
  from settings_do_not_touch_run [OF r] v r show ?thesis
    by (simp add: i parseInt_examples js_or_def handleSettingsChange_pomodoroState
        readSettings_fields)
qed

subsection \<open>The throttled tick; pause and resume\<close>





text \<open>
  Claim C1 at a concrete run: a work phase of 25 minutes is paused with 24 minutes left on
  the display and resumed five minutes later.  The resumed run has 19 minutes left: the
  target time is the one set at the start, so the time spent paused is lost.
\<close>

theorem pause_resume_drift:
  "Paused paused_example
   \<and> targetTime paused_example = Some 2500000
   \<and> displayElement paused_example = ''00:24:00''
   \<and> clock paused_example (reads paused_example) = 1360000
   \<and> Running resumed_example
   \<and> startTime resumed_example = Some 1360000
   \<and> targetTime resumed_example = Some 2500000
   \<and> totalDuration resumed_example = 1140000
   \<and> displayElement resumed_example = ''00:19:00''"
  by code_simp

subsection \<open>The timestamps in the reachable states\<close>

lemma run_inv_cong:
  "timer s' = timer s \<Longrightarrow> startTime s' = startTime s \<Longrightarrow> targetTime s' = targetTime s
   \<Longrightarrow> nextHandle s' = nextHandle s \<Longrightarrow> run_inv s' = run_inv s"
  by (simp add: run_inv_def)

lemma run_inv_init: "run_inv (init saved clk)"
  by (simp add: run_inv_def init_def Let_def renderCycles_def syncSettingsToUI_def
      updateDisplay_def)

lemma run_inv_pause: "run_inv s \<Longrightarrow> run_inv (pause s)"
  by (auto simp add: run_inv_def pause_def split: option.splits)

lemma pause_timer_None: "run_inv s \<Longrightarrow> timer (pause s) = None"
  by (auto simp add: run_inv_def pause_def split: option.splits)

lemma run_inv_cleared:
  "timer s = None \<Longrightarrow> startTime s = None \<Longrightarrow> targetTime s = None \<Longrightarrow> 0 < nextHandle s
   \<Longrightarrow> run_inv s"
  by (simp add: run_inv_def)

lemma run_inv_truthy: "run_inv s \<Longrightarrow> truthy (timer s) = (timer s \<noteq> None)"
  by (auto simp add: run_inv_def truthy_def split: option.splits)

lemma run_inv_reset: "run_inv s \<Longrightarrow> run_inv (reset s)"
proof -
  assume i: "run_inv s"
  have "timer (reset s) = timer (pause s)" "startTime (reset s) = None"
    "targetTime (reset s) = None" "nextHandle (reset s) = nextHandle s"
    by (simp_all add: reset_def Let_def renderCycles_def updateDisplay_def clearRun_def
        pause_frame)
  with i pause_timer_None [OF i] show ?thesis
    by (simp add: run_inv_def)
qed

lemma run_inv_resetToDefaults: "run_inv s \<Longrightarrow> run_inv (resetToDefaults s)"
proof -
  assume "run_inv s"
  then have "run_inv (reset s)"
    by (rule run_inv_reset)
  moreover have "run_inv (resetToDefaults s) = run_inv (reset s)"
    by (rule run_inv_cong) (simp_all add: resetToDefaults_def Let_def syncSettingsToUI_def)
  ultimately show ?thesis
    by simp
qed

lemma run_inv_switchPhase: "run_inv s \<Longrightarrow> run_inv (switchPhase c s)"
proof -
  assume i: "run_inv s"
  have t: "timer (switchPhase c s) = (if truthy (timer s) then timer (pause s) else timer s)"
    by (simp add: switchPhase_def Let_def updateDisplay_def clearRun_def)
  have "startTime (switchPhase c s) = None" "targetTime (switchPhase c s) = None"
    "nextHandle (switchPhase c s) = nextHandle s"
    by (simp_all add: switchPhase_def Let_def updateDisplay_def clearRun_def pause_frame)
  moreover have "timer (switchPhase c s) = None"
    using run_inv_truthy [OF i] pause_timer_None [OF i] by (simp add: t)
  ultimately show ?thesis
    using i by (simp add: run_inv_def)
qed

lemma run_inv_beginRun: "run_inv s \<Longrightarrow> run_inv (beginRun s)"
  by (auto simp add: run_inv_def beginRun_def freshRun_def resumeRun_def setInterval_def
      Date_now_def Let_def split: option.splits)

lemma run_inv_completePhase: "run_inv s \<Longrightarrow> run_inv (completePhase s)"
proof -
  assume i: "run_inv s"
  have "timer (completePhase s) = timer (pause s)"
    by (simp add: completePhase_def Let_def updateDisplay_def clearRun_def renderCycles_def
        pause_def split: option.splits)
  with pause_timer_None [OF i] i show ?thesis
    by (simp add: run_inv_def completePhase_cleared completePhase_clock)
qed

lemma run_inv_tickUpdate: "run_inv (snd (tickUpdate tt st s)) = run_inv s"
  by (rule run_inv_cong) (simp_all add: tickUpdate_fields)

lemma run_inv_throttleArm: "run_inv (throttleArm s) = run_inv s"
  by (rule run_inv_cong) (simp_all add: throttleArm_fields)

lemma run_inv_throttleTimeout: "run_inv (throttleTimeout s) = run_inv s"
  by (rule run_inv_cong) (simp_all add: throttleTimeout_def)

lemma run_inv_tickBody: "tickBody s = Some s' \<Longrightarrow> run_inv s \<Longrightarrow> run_inv s'"
proof (induction rule: tickBody.raw_induct [rotated, consumes 1, case_names step])
  case (step tb s s')
  note IH = step(1) and eq = step(2) and inv = step(3)
  show ?case
  proof (cases "\<exists>tt st. targetTime s = Some tt \<and> startTime s = Some st \<and> tt \<noteq> 0 \<and> st \<noteq> 0")
    case False
    with eq have "s' = s"
      by (auto split: option.splits if_splits)
    with inv show ?thesis
      by simp
  next
    case True
    then obtain tt st where ts: "targetTime s = Some tt" "startTime s = Some st" "tt \<noteq> 0" "st \<noteq> 0"
      by blast
    let ?u = "snd (tickUpdate tt st s)"
    let ?b = "beginRun (completePhase ?u)"
    have u: "run_inv ?u"
      using inv by (simp add: run_inv_tickUpdate)
    then have b: "run_inv ?b"
      by (intro run_inv_beginRun run_inv_completePhase)
    from eq ts have e:
      "(if fst (tickUpdate tt st s) \<le> 0
        then (if inThrottle ?b then Some ?b else tb ?b \<bind> (\<lambda>s3. Some (throttleArm s3)))
        else Some ?u) = Some s'"
      by (auto simp add: Let_def split: if_splits)
    show ?thesis
    proof (cases "fst (tickUpdate tt st s) \<le> 0")
      case False
      with e u show ?thesis by simp
    next
      case expired: True
      show ?thesis
      proof (cases "inThrottle ?b")
        case True
        with e expired b show ?thesis by simp
      next
        case False
        with e expired obtain s3 where s3: "tb ?b = Some s3" "s' = throttleArm s3"
          by (auto simp add: bind_eq_Some_conv)
        from IH [OF s3(1) b] show ?thesis
          by (simp add: s3(2) run_inv_throttleArm)
      qed
    qed
  qed
qed

lemma run_inv_tickPomodoro: "tickPomodoro s = Some s' \<Longrightarrow> run_inv s \<Longrightarrow> run_inv s'"
  by (auto simp add: tickPomodoro_def bind_eq_Some_conv run_inv_throttleArm
      dest: run_inv_tickBody split: if_splits)

lemma run_inv_startPomodoro: "startPomodoro s = Some s' \<Longrightarrow> run_inv s \<Longrightarrow> run_inv s'"
  unfolding startPomodoro_def by (erule run_inv_tickPomodoro) (rule run_inv_beginRun)

lemma run_inv_start: "start s = Some s' \<Longrightarrow> run_inv s \<Longrightarrow> run_inv s'"
  by (auto simp add: start_def dest: run_inv_startPomodoro split: if_splits)

lemma run_inv_complete:
  "handlePomodoroPhaseComplete s = Some s' \<Longrightarrow> run_inv s \<Longrightarrow> run_inv s'"
  unfolding handlePomodoroPhaseComplete_def
  by (erule run_inv_startPomodoro) (rule run_inv_completePhase)

lemma run_inv_settings:
  "run_inv (handleSettingsInput (s\<lparr>pWork := a, pShort := b, pLong := c, pEvery := d\<rparr>)) = run_inv s"
  "run_inv (handleSettingsChange (s\<lparr>pWork := a, pShort := b, pLong := c, pEvery := d\<rparr>)) = run_inv s"
  by (rule run_inv_cong;
      simp add: handleSettingsInput_def handleSettingsChange_def previewDisplay_def
        updateDisplay_def renderCycles_def saveSettings_def readSettings_def)+

lemma run_inv_modeSelect: "run_inv (s\<lparr>modeSelect := c\<rparr>) = run_inv s"
  by (simp add: run_inv_def)

lemma reachable_run_inv: "reachable s \<Longrightarrow> run_inv s"
proof (induction rule: reachable.induct)
  case (r_init saved clk)
  show ?case by (rule run_inv_init)
next
  case (r_switch s c)
  then show ?case by (simp add: run_inv_switchPhase run_inv_modeSelect)
qed (auto simp add: run_inv_pause run_inv_reset run_inv_resetToDefaults run_inv_throttleTimeout
    run_inv_settings dest: run_inv_start run_inv_tickPomodoro run_inv_complete)

text \<open>
  Claim C6, amended.  In every reachable state the start and target timestamps are both
  set or both unset, and both are set whenever the timer is running.  \<open>pause\<close> stops the
  timer and keeps both timestamps; \<open>reset\<close> and \<open>switchPhase\<close> stop it and clear both.
\<close>

theorem timestamps_paired_set_while_running:
  assumes "reachable s"
  shows "((startTime s = None) = (targetTime s = None))
    \<and> (Running s \<longrightarrow> startTime s \<noteq> None \<and> targetTime s \<noteq> None)
    \<and> startTime (pause s) = startTime s \<and> targetTime (pause s) = targetTime s
    \<and> \<not> Running (pause s)
    \<and> startTime (reset s) = None \<and> targetTime (reset s) = None \<and> \<not> Running (reset s)
    \<and> startTime (switchPhase c s) = None \<and> targetTime (switchPhase c s) = None
    \<and> \<not> Running (switchPhase c s)"
proof -
  have i: "run_inv s"
    using assms by (rule reachable_run_inv)
  have "\<not> Running (switchPhase c s)"
    using run_inv_switchPhase [OF i, of c]
    by (auto simp add: run_inv_def Running_def truthy_def switchPhase_def Let_def
        updateDisplay_def clearRun_def split: option.splits)
  moreover have "\<not> Running (reset s)" "startTime (reset s) = None" "targetTime (reset s) = None"
    by (simp_all add: Running_def reset_cleared)
  moreover have "startTime (switchPhase c s) = None" "targetTime (switchPhase c s) = None"
    by (simp_all add: switchPhase_def Let_def updateDisplay_def clearRun_def)
  moreover have "\<not> Running (pause s)"
    by (simp add: Running_def pause_not_truthy)
  ultimately show ?thesis
    using i by (auto simp add: run_inv_def Running_def truthy_def pause_frame)
qed

lemma started_example_reachable: "reachable started_example"
proof -
  have "(case start (init None pausing_clock) of None \<Rightarrow> False | Some _ \<Rightarrow> True)"
    by code_simp
  then have "start (init None pausing_clock) = Some started_example"
    by (simp add: started_example_def split: option.splits)
  with r_init [of None pausing_clock] show ?thesis
    by (rule r_start)
qed

text \<open>
  Claim C6, as stated, fails: the state reached by \<open>start\<close> and then \<open>pause\<close> is paused,
  not running, and both timestamps are still set.
\<close>

theorem paused_keeps_timestamps_counterexample:
  "reachable (pause started_example)
   \<and> Paused (pause started_example) \<and> \<not> Running (pause started_example)
   \<and> timer (pause started_example) = None
   \<and> startTime (pause started_example) = Some 1000000
   \<and> targetTime (pause started_example) = Some 2500000"
proof -
  have "reachable (pause started_example)"
    using started_example_reachable by (rule r_pause)
  moreover have "Paused (pause started_example)" "\<not> Running (pause started_example)"
    "timer (pause started_example) = None"
    "startTime (pause started_example) = Some 1000000"
    "targetTime (pause started_example) = Some 2500000"
    by code_simp+
  ultimately show ?thesis
    by simp
qed

theorem timestamps_paired_set_while_running_witness:
  "reachable started_example \<and> Running started_example
   \<and> startTime started_example \<noteq> None \<and> targetTime started_example \<noteq> None
   \<and> startTime (pause started_example) = startTime started_example
   \<and> targetTime (reset started_example) = None"
proof -
  have r: "Running started_example"
    by code_simp
  from timestamps_paired_set_while_running [OF started_example_reachable, of work_choice] r
  show ?thesis
    using started_example_reachable by simp
qed

subsection \<open>Adding an exam\<close>

lemma someDuplicate_found:
  assumes "\<forall>x\<in>set pre. extractDateString ld (date x) \<noteq> Inl TypeError"
    and "lower (title e) = lower (title exam)" and "extractDateString ld (date e) = Inr d"
  shows "someDuplicate lower ld exam d (pre @ e # post) = Inr True"
  using assms(1)
proof (induction pre)
  case Nil
  show ?case using assms(2,3) by simp
next
  case (Cons x pre)
  obtain d' where "extractDateString ld (date x) = Inr d'"
    using Cons.prems by (cases "extractDateString ld (date x)") (auto, metis error.exhaust)
  then show ?case
    using Cons by simp
qed

lemma someDuplicate_throws:
  assumes "\<forall>x\<in>set pre. \<exists>d'. extractDateString ld (date x) = Inr d'
      \<and> \<not> (lower (title x) = lower (title exam) \<and> d' = d)"
    and "extractDateString ld (date b) = Inl TypeError"
  shows "someDuplicate lower ld exam d (pre @ b # post) = Inl TypeError"
  using assms(1)
proof (induction pre)
  case Nil
  show ?case using assms(2) by simp
next
  case (Cons x pre)
  then show ?case by auto
qed

lemma notify_persist_fields:
  "exams (notify (persist store s)) = exams s"
  "toasts (notify (persist store s)) =
     toasts s @ saveToasts (store EXAMS) @ saveToasts (store TIMETABLE) @ saveToasts (store FOCUS)"
  "localExams (notify (persist store s)) = (if store EXAMS = Saved then exams s else localExams s)"
  by (simp_all add: notify_def persist_def)

text \<open>
  Claim C9, as stated, fails: the duplicate scan normalises the date of every stored exam
  it passes, and \<open>formatDate\<close> throws on a date that does not parse.  Here the new exam has
  the title (up to case) and the normalised date of the second stored exam, the list is far
  below the maximum, and \<open>addExam\<close> ends in the \<open>TypeError\<close> raised at the first stored exam:
  nothing is appended and nothing is returned.
\<close>

theorem addExam_throws_counterexample:
  "asciiLower (title maths_exam) = asciiLower (title maths_again)
   \<and> extractDateString utcDate (date maths_exam) = Inr ''2025-01-15''
   \<and> extractDateString utcDate (date maths_again) = Inr ''2025-01-15''
   \<and> exams two_exams = [undated_exam, maths_exam]
   \<and> addExam asciiLower utcDate allSaved maths_again two_exams = Inl TypeError"
  by code_simp

text \<open>
  Claim C9, amended.  Let the list be below the maximum, let the date of the new exam
  normalise, and let a stored exam have the same title up to case and the same normalised
  date, with no stored exam in front of it whose date fails to normalise.  Then \<open>addExam\<close>
  appends the new exam and returns \<open>true\<close>: the only trace of the duplicate is the warning
  toast (followed by the toasts of the storage manager, if saving fails), and the local
  storage holds the new list when the save succeeds.  \<open>addExam\<close> returns \<open>false\<close> exactly
  when the list already holds 1000 exams, and then the list is unchanged.  When the date of
  the new exam, or of a stored exam in front of every match, does not normalise, \<open>addExam\<close>
  throws and appends nothing.
\<close>

theorem addExam_warns_on_duplicate:
  "(length (exams s) < 1000
      \<and> extractDateString ld (date exam) = Inr d
      \<and> exams s = pre @ e # post
      \<and> (\<forall>x\<in>set pre. extractDateString ld (date x) \<noteq> Inl TypeError)
      \<and> lower (title e) = lower (title exam) \<and> extractDateString ld (date e) = Inr d
    \<longrightarrow> (\<exists>s'. addExam lower ld store exam s = Inr (True, s')
          \<and> exams s' = exams s @ [exam]
          \<and> toasts s' = toasts s @ [(''Similar exam already exists!'', 3000)]
              @ saveToasts (store EXAMS) @ saveToasts (store TIMETABLE) @ saveToasts (store FOCUS)
          \<and> localExams s' = (if store EXAMS = Saved then exams s @ [exam] else localExams s)))
   \<and> ((\<exists>s'. addExam lower ld store exam s = Inr (False, s')) = (1000 \<le> length (exams s)))
   \<and> (\<forall>s'. addExam lower ld store exam s = Inr (False, s') \<longrightarrow> exams s' = exams s)
   \<and> (length (exams s) < 1000 \<and> extractDateString ld (date exam) = Inl TypeError
        \<longrightarrow> addExam lower ld store exam s = Inl TypeError)
   \<and> (length (exams s) < 1000
        \<and> extractDateString ld (date exam) = Inr d
        \<and> exams s = pre @ e # post
        \<and> (\<forall>x\<in>set pre. \<exists>d'. extractDateString ld (date x) = Inr d'
              \<and> \<not> (lower (title x) = lower (title exam) \<and> d' = d))
        \<and> extractDateString ld (date e) = Inl TypeError
        \<longrightarrow> addExam lower ld store exam s = Inl TypeError)"
proof -
  have a: "\<exists>s'. addExam lower ld store exam s = Inr (True, s')
          \<and> exams s' = exams s @ [exam]
          \<and> toasts s' = toasts s @ [(''Similar exam already exists!'', 3000)]
              @ saveToasts (store EXAMS) @ saveToasts (store TIMETABLE) @ saveToasts (store FOCUS)
          \<and> localExams s' = (if store EXAMS = Saved then exams s @ [exam] else localExams s)"
    if "length (exams s) < 1000" "extractDateString ld (date exam) = Inr d"
      "exams s = pre @ e # post"
      "\<forall>x\<in>set pre. extractDateString ld (date x) \<noteq> Inl TypeError"
      "lower (title e) = lower (title exam)" "extractDateString ld (date e) = Inr d"
  proof -
    have "someDuplicate lower ld exam d (exams s) = Inr True"
      unfolding that(3) using that(4,5,6) by (rule someDuplicate_found)
    then show ?thesis
      using that(1,2)
      by (simp add: addExam_def EXAMS_MAX_def showToast_def notify_persist_fields)
  qed
  have b: "(\<exists>s'. addExam lower ld store exam s = Inr (False, s')) = (1000 \<le> length (exams s))"
    by (auto simp add: addExam_def EXAMS_MAX_def Let_def split: sum.splits)
  have c: "addExam lower ld store exam s = Inr (False, s') \<Longrightarrow> exams s' = exams s" for s'
    by (auto simp add: addExam_def EXAMS_MAX_def Let_def showToast_def split: sum.splits if_splits)
  have t1: "addExam lower ld store exam s = Inl TypeError"
    if "length (exams s) < 1000" "extractDateString ld (date exam) = Inl TypeError"
    using that by (simp add: addExam_def EXAMS_MAX_def)
  have t2: "addExam lower ld store exam s = Inl TypeError"
    if "length (exams s) < 1000" "extractDateString ld (date exam) = Inr d"
      "exams s = pre @ e # post"
      "\<forall>x\<in>set pre. \<exists>d'. extractDateString ld (date x) = Inr d'
              \<and> \<not> (lower (title x) = lower (title exam) \<and> d' = d)"
      "extractDateString ld (date e) = Inl TypeError"
  proof -
    have "someDuplicate lower ld exam d (exams s) = Inl TypeError"
      unfolding that(3) using that(4,5) by (rule someDuplicate_throws)
    then show ?thesis
      using that(1,2) by (simp add: addExam_def EXAMS_MAX_def)
  qed
  show ?thesis
    using a b c t1 t2 by blast
qed

theorem addExam_warns_on_duplicate_witness:
  "(\<exists>s'. addExam asciiLower utcDate allSaved maths_again one_exam = Inr (True, s')
        \<and> exams s' = [maths_exam, maths_again]
        \<and> toasts s' = [(''Similar exam already exists!'', 3000)]
        \<and> localExams s' = [maths_exam, maths_again])
   \<and> (\<exists>s'. addExam asciiLower utcDate allSaved maths_again full_list = Inr (False, s'))
   \<and> addExam asciiLower utcDate allSaved undated_exam one_exam = Inl TypeError
   \<and> addExam asciiLower utcDate allSaved maths_again two_exams = Inl TypeError"
proof -
  note T = addExam_warns_on_duplicate
  have h: "length (exams one_exam) < 1000
      \<and> extractDateString utcDate (date maths_again) = Inr ''2025-01-15''
      \<and> exams one_exam = [] @ maths_exam # []
      \<and> (\<forall>x\<in>set []. extractDateString utcDate (date x) \<noteq> Inl TypeError)
      \<and> asciiLower (title maths_exam) = asciiLower (title maths_again)
      \<and> extractDateString utcDate (date maths_exam) = Inr ''2025-01-15''"
    by code_simp
  from T [of one_exam utcDate maths_again "''2025-01-15''" "[]" maths_exam "[]" asciiLower
      allSaved, THEN conjunct1] h
  have w1: "\<exists>s'. addExam asciiLower utcDate allSaved maths_again one_exam = Inr (True, s')
        \<and> exams s' = [maths_exam, maths_again]
        \<and> toasts s' = [(''Similar exam already exists!'', 3000)]
        \<and> localExams s' = [maths_exam, maths_again]"
    by (auto simp add: one_exam_def allSaved_def saveToasts_def)
  have f: "1000 \<le> length (exams full_list)"
    by (simp add: full_list_def)
  from T [of full_list utcDate maths_again _ _ _ _ asciiLower allSaved,
      THEN conjunct2, THEN conjunct1] f
  have w2: "\<exists>s'. addExam asciiLower utcDate allSaved maths_again full_list = Inr (False, s')"
    by blast
  have u: "length (exams one_exam) < 1000
      \<and> extractDateString utcDate (date undated_exam) = Inl TypeError"
    by code_simp
  from T [of one_exam utcDate undated_exam _ _ _ _ asciiLower allSaved,
      THEN conjunct2, THEN conjunct2, THEN conjunct2, THEN conjunct1] u
  have w3: "addExam asciiLower utcDate allSaved undated_exam one_exam = Inl TypeError"
    by blast
  have v: "length (exams two_exams) < 1000
      \<and> extractDateString utcDate (date maths_again) = Inr ''2025-01-15''
      \<and> exams two_exams = [] @ undated_exam # [maths_exam]
      \<and> extractDateString utcDate (date undated_exam) = Inl TypeError"
    by code_simp
  from T [of two_exams utcDate maths_again "''2025-01-15''" "[]" undated_exam "[maths_exam]"
      asciiLower allSaved,
      THEN conjunct2, THEN conjunct2, THEN conjunct2, THEN conjunct2] v
  have w4: "addExam asciiLower utcDate allSaved maths_again two_exams = Inl TypeError"
    by simp
  from w1 w2 w3 w4 show ?thesis
    by simp
qed

end
